theory Spec2Isabelle
  imports Main "HOL-Library.Word"
begin

section \<open>JavaScript values\<close>

text \<open>
  A JavaScript string is a sequence of UTF-16 code units, and \<open>length\<close> counts code
  units; a string literal of the source is written \<open>lit ''...''\<close>. Timestamps are
  milliseconds since the epoch, the unit of \<open>Date.now()\<close> and \<open>getTime()\<close>.
\<close>

type_synonym code_unit = "16 word"
type_synonym js_string = "code_unit list"
type_synonym timestamp = int

definition lit :: "string \<Rightarrow> js_string" where
  "lit s = map of_char s"

text \<open>Truthiness of a nullable string: \<open>null\<close>, \<open>undefined\<close> and \<open>""\<close> are falsy.\<close>

definition truthy :: "js_string option \<Rightarrow> bool" where
  "truthy v = (case v of None \<Rightarrow> False | Some s \<Rightarrow> s \<noteq> [])"

section \<open>The store\<close>

text \<open>
  The tables the cron handler reads and writes: \<open>scout_executions\<close> and \<open>scouts\<close>.
  The columns are those the handler names; nullable columns are options.
\<close>

record execution =
  id_execution :: js_string
  scout_id :: js_string
  status :: js_string
  started_at :: timestamp
  completed_at :: "timestamp option"
  error_message :: "js_string option"

record scout_location =
  city :: "js_string option"

record scout =
  id_scout :: js_string
  user_id :: js_string
  title :: "js_string option"
  goal :: "js_string option"
  description :: "js_string option"
  location :: "scout_location option"
  search_queries :: "js_string list option"
  frequency :: "js_string option"
  is_active :: bool

record store =
  scout_executions :: "execution list"
  scouts :: "scout list"

text \<open>
  Every query of the handler answers \<open>{ data, error }\<close>. Which queries fail is part of
  the world the handler runs in: \<open>store_error w q\<close> is the error of query \<open>q\<close>, if any.
\<close>

datatype query =
    SelectStuckExecutions
  | UpdateExecution js_string
  | SelectActiveScoutUsers
  | DisableScouts
  | SelectScoutById js_string
  | SelectActiveScouts

record user =
  last_sign_in_at :: "timestamp option"

text \<open>
  \<open>supabase.auth.admin.getUserById\<close>: it throws, or answers an error, or answers a user
  (\<open>null\<close> included).
\<close>

datatype auth_response = AuthThrows | AuthError js_string | AuthUser "user option"

text \<open>
  The outcome of one promise: the moment it settles and whether it was rejected (with
  the message of the error) or fulfilled.
\<close>

record 'r settled =
  settled_at :: nat
  outcome :: "js_string + 'r"

text \<open>
  The world of one invocation of \<open>scout-cron\<close>: the environment variables, the clock
  readings (\<open>Date.now()\<close> at the start of the reconciliation, \<open>new Date()\<close> at the update
  of each execution, \<open>Date.now()\<close> at the start of the sweep), the failing queries, the
  admin API, and the two functions the handler imports and calls, \<open>shouldRunScout\<close>
  (helpers.ts) and \<open>executeScoutAgent\<close> (agent.ts), taken as parameters. An invocation
  of \<open>executeScoutAgent\<close> is given by the outcome of the promise it returns.
\<close>

record 'r world =
  SUPABASE_URL :: "js_string option"
  SUPABASE_SERVICE_ROLE_KEY :: "js_string option"
  now_reconcile :: timestamp
  now_update :: "js_string \<Rightarrow> timestamp"
  now_sweep :: timestamp
  store_error :: "query \<Rightarrow> js_string option"
  getUserById :: "js_string \<Rightarrow> auth_response"
  shouldRunScout :: "scout \<Rightarrow> bool"
  executeScoutAgent :: "scout \<Rightarrow> 'r settled"

section \<open>Stuck-execution cleanup (index.ts, lines 27 to 54)\<close>

definition TIMEOUT_MESSAGE :: js_string where
  "TIMEOUT_MESSAGE = lit ''Execution timed out after 3 minutes (Supabase Edge Function limit)''"

definition threeMinutesAgo :: "'r world \<Rightarrow> timestamp" where
  "threeMinutesAgo w = now_reconcile w - 3 * 60 * 1000"

text \<open>The select: \<open>data\<close> is \<open>null\<close> when the query fails.\<close>

definition stuckExecutions :: "'r world \<Rightarrow> store \<Rightarrow> execution list option" where
  "stuckExecutions w db =
     (case store_error w SelectStuckExecutions of
        Some _ \<Rightarrow> None
      | None \<Rightarrow>
          Some (filter (\<lambda>e. status e = lit ''running'' \<and> started_at e < threeMinutesAgo w)
                  (scout_executions db)))"

definition mark_failed :: "'r world \<Rightarrow> execution \<Rightarrow> execution" where
  "mark_failed w e =
     e\<lparr>status := lit ''failed'',
       completed_at := Some (now_update w (id_execution e)),
       error_message := Some TIMEOUT_MESSAGE\<rparr>"

text \<open>
  \<open>update({...}).eq("id", i)\<close>: every row whose id is \<open>i\<close> is rewritten. The handler
  does not look at the error of the update; a failed update leaves the table as it was.
\<close>

definition update_execution :: "'r world \<Rightarrow> js_string \<Rightarrow> store \<Rightarrow> store" where
  "update_execution w i db =
     (case store_error w (UpdateExecution i) of
        Some _ \<Rightarrow> db
      | None \<Rightarrow>
          db\<lparr>scout_executions :=
               map (\<lambda>e. if id_execution e = i then mark_failed w e else e)
                 (scout_executions db)\<rparr>)"

text \<open>The \<open>for ... of\<close> loop over the selected rows.\<close>

fun fail_each :: "'r world \<Rightarrow> execution list \<Rightarrow> store \<Rightarrow> store" where
  "fail_each w [] db = db"
| "fail_each w (x # xs) db = fail_each w xs (update_execution w (id_execution x) db)"

definition reconcileStuck :: "'r world \<Rightarrow> store \<Rightarrow> store" where
  "reconcileStuck w db =
     (case stuckExecutions w db of
        None \<Rightarrow> db
      | Some stuck \<Rightarrow> if length stuck > 0 then fail_each w stuck db else db)"

section \<open>Dormancy sweep (index.ts, lines 56 to 112)\<close>

definition thirtyDaysAgo :: "'r world \<Rightarrow> timestamp" where
  "thirtyDaysAgo w = now_sweep w - 30 * 24 * 60 * 60 * 1000"

text \<open>The owners of the active scouts: \<open>Inl\<close> is \<open>scoutUsersError\<close>.\<close>

definition activeScoutUsers :: "'r world \<Rightarrow> store \<Rightarrow> js_string + js_string list" where
  "activeScoutUsers w db =
     (case store_error w SelectActiveScoutUsers of
        Some m \<Rightarrow> Inl m
      | None \<Rightarrow> Inr (map user_id (filter is_active (scouts db))))"

text \<open>\<open>[...new Set(ids)]\<close>: the ids in the order of their first occurrence.\<close>

definition uniqueUserIds :: "js_string list \<Rightarrow> js_string list" where
  "uniqueUserIds ids = fold (\<lambda>x seen. if x \<in> set seen then seen else seen @ [x]) ids []"

text \<open>
  The body of the loop over the owners, as the answer to "is this id pushed onto
  \<open>inactiveUserIds\<close>": a thrown error is caught and logged, an answered error is logged
  and the loop continues, a user without a last sign-in is passed over.
\<close>

definition user_inactive :: "'r world \<Rightarrow> js_string \<Rightarrow> bool" where
  "user_inactive w userId =
     (case getUserById w userId of
        AuthThrows \<Rightarrow> False
      | AuthError _ \<Rightarrow> False
      | AuthUser None \<Rightarrow> False
      | AuthUser (Some u) \<Rightarrow>
          (case last_sign_in_at u of
             None \<Rightarrow> False
           | Some lastSignIn \<Rightarrow> lastSignIn < thirtyDaysAgo w))"

fun check_users :: "'r world \<Rightarrow> js_string list \<Rightarrow> js_string list \<Rightarrow> js_string list" where
  "check_users w [] inactiveUserIds = inactiveUserIds"
| "check_users w (userId # rest) inactiveUserIds =
     check_users w rest
       (if user_inactive w userId then inactiveUserIds @ [userId] else inactiveUserIds)"

text \<open>
  The bulk update \<open>update({ is_active: false }).in("user_id", ids).eq("is_active", true)\<close>;
  its error is only logged.
\<close>

definition disable_scouts :: "'r world \<Rightarrow> js_string list \<Rightarrow> store \<Rightarrow> store" where
  "disable_scouts w inactiveUserIds db =
     (case store_error w DisableScouts of
        Some _ \<Rightarrow> db
      | None \<Rightarrow>
          db\<lparr>scouts :=
               map (\<lambda>s. if user_id s \<in> set inactiveUserIds \<and> is_active s
                        then s\<lparr>is_active := False\<rparr> else s)
                 (scouts db)\<rparr>)"

definition sweepDormant :: "'r world \<Rightarrow> store \<Rightarrow> store" where
  "sweepDormant w db =
     (case activeScoutUsers w db of
        Inl _ \<Rightarrow> db
      | Inr users \<Rightarrow>
          if length users > 0 then
            (let inactiveUserIds = check_users w (uniqueUserIds users) []
             in if length inactiveUserIds > 0 then disable_scouts w inactiveUserIds db else db)
          else db)"

section \<open>Selection of the scouts to run (index.ts, lines 114 to 169)\<close>

record request =
  method_request :: js_string
  scoutId :: "js_string option"

text \<open>\<open>.eq("id", scoutId).single()\<close>: an error unless exactly one row answers.\<close>

definition scoutCheck :: "'r world \<Rightarrow> js_string \<Rightarrow> store \<Rightarrow> scout option" where
  "scoutCheck w i db =
     (case store_error w (SelectScoutById i) of
        Some _ \<Rightarrow> None
      | None \<Rightarrow>
          (case filter (\<lambda>s. id_scout s = i) (scouts db) of
             [s] \<Rightarrow> Some s
           | _ \<Rightarrow> None))"

definition isComplete :: "scout \<Rightarrow> bool" where
  "isComplete s \<longleftrightarrow>
     truthy (title s) \<and> truthy (goal s) \<and> truthy (description s) \<and> location s \<noteq> None \<and>
     (case search_queries s of None \<Rightarrow> False | Some qs \<Rightarrow> length qs > 0) \<and>
     truthy (frequency s)"

text \<open>The manual trigger; \<open>Inl\<close> is the message of the error thrown.\<close>

definition manual_scout :: "'r world \<Rightarrow> js_string \<Rightarrow> store \<Rightarrow> js_string + scout list" where
  "manual_scout w i db =
     (case scoutCheck w i db of
        None \<Rightarrow> Inl (lit ''Scout '' @ i @ lit '' not found in database'')
      | Some s \<Rightarrow>
          if \<not> is_active s then
            Inl (lit ''Scout '' @ i @ lit '' is not active. Please activate it in the settings.'')
          else if \<not> isComplete s then
            Inl (lit ''Scout '' @ i @ lit '' configuration is not complete'')
          else Inr [s])"

text \<open>The cron trigger: the active scouts that \<open>shouldRunScout\<close> keeps.\<close>

definition cron_scouts :: "'r world \<Rightarrow> store \<Rightarrow> js_string + scout list" where
  "cron_scouts w db =
     (case store_error w SelectActiveScouts of
        Some m \<Rightarrow> Inl m
      | None \<Rightarrow> Inr (filter (shouldRunScout w) (filter is_active (scouts db))))"

definition scoutsToRun :: "'r world \<Rightarrow> request \<Rightarrow> store \<Rightarrow> js_string + scout list" where
  "scoutsToRun w req db =
     (case scoutId req of
        None \<Rightarrow> cron_scouts w db
      | Some i \<Rightarrow> if i = [] then cron_scouts w db else manual_scout w i db)"

section \<open>Dispatch and response (index.ts, lines 171 to 196)\<close>

text \<open>
  \<open>Promise.all\<close> is fulfilled with the values, in the order of the promises, when all
  are fulfilled; otherwise it is rejected with the reason of the promise that was
  rejected first. Of two rejections at the same moment, the earlier in the list counts.
\<close>

fun first_rejection :: "'r settled list \<Rightarrow> (nat \<times> js_string) option" where
  "first_rejection [] = None"
| "first_rejection (p # ps) =
     (case outcome p of
        Inr _ \<Rightarrow> first_rejection ps
      | Inl m \<Rightarrow>
          (case first_rejection ps of
             None \<Rightarrow> Some (settled_at p, m)
           | Some (t, m') \<Rightarrow> if settled_at p \<le> t then Some (settled_at p, m) else Some (t, m')))"

definition fulfilled_values :: "'r settled list \<Rightarrow> 'r list" where
  "fulfilled_values ps = concat (map (\<lambda>p. case outcome p of Inl _ \<Rightarrow> [] | Inr v \<Rightarrow> [v]) ps)"

definition promise_all :: "'r settled list \<Rightarrow> js_string + 'r list" where
  "promise_all ps =
     (case first_rejection ps of
        Some (_, m) \<Rightarrow> Inl m
      | None \<Rightarrow> Inr (fulfilled_values ps))"

text \<open>
  The three responses of the handler: the answer to a CORS preflight, the report (status
  200, \<open>success: true\<close>, the count and the id and title of each scout), and the failure
  (status 500 with the message of the error).
\<close>

datatype response =
    PreflightOk
  | Report nat "(js_string \<times> js_string option) list"
  | Error500 js_string

text \<open>
  The handler. The store it returns holds the handler's own writes; what
  \<open>executeScoutAgent\<close> writes is that function's business.
\<close>

definition serve :: "'r world \<Rightarrow> request \<Rightarrow> store \<Rightarrow> response \<times> store" where
  "serve w req db =
     (if method_request req = lit ''OPTIONS'' then (PreflightOk, db)
      else if \<not> truthy (SUPABASE_URL w) \<or> \<not> truthy (SUPABASE_SERVICE_ROLE_KEY w) then
        (Error500 (lit ''Supabase configuration missing''), db)
      else
        (let db1 = reconcileStuck w db;
             db2 = sweepDormant w db1
         in case scoutsToRun w req db2 of
              Inl m \<Rightarrow> (Error500 m, db2)
            | Inr run \<Rightarrow>
                (case promise_all (map (executeScoutAgent w) run) of
                   Inl m \<Rightarrow> (Error500 m, db2)
                 | Inr _ \<Rightarrow>
                     (Report (length run) (map (\<lambda>s. (id_scout s, title s)) run), db2))))"

section \<open>The due-date policy\<close>

text \<open>
  Modelled from the spec: the due-date policy \<open>isDue(task, mostRecentExecution?)\<close>;
  helpers.ts, which defines \<open>shouldRunScout\<close>, is not among the sources. The spec
  says: a task with no prior execution is always due; otherwise the time elapsed since
  the start of the last execution is compared with the interval implied by the frequency,
  optionally refined by a match of the time of day or day of week; and while the most
  recent execution is still running the task is due only if its staleness exceeds the
  stuck-execution timeout. The spec fixes neither the interval of a frequency code nor the
  refinement, so both are parameters, as is the current time.
\<close>

definition isDue ::
  "(js_string option \<Rightarrow> int) \<Rightarrow> (scout \<Rightarrow> timestamp \<Rightarrow> bool) \<Rightarrow> timestamp \<Rightarrow>
     scout \<Rightarrow> execution option \<Rightarrow> bool" where
  "isDue interval_of schedule_matches now task mostRecentExecution =
     (case mostRecentExecution of
        None \<Rightarrow> True
      | Some e \<Rightarrow>
          (status e = lit ''running'' \<longrightarrow> now - started_at e > 3 * 60 * 1000) \<and>
          \<not> now - started_at e < interval_of (frequency task) \<and>
          schedule_matches task now)"

section \<open>Slack notification (slack.ts)\<close>

text \<open>An awaited call or a function call: it throws (the message of the error) or returns.\<close>

datatype 'a attempt = Thrown js_string | Returned 'a

subsection \<open>The webhook pattern\<close>

definition upper_or_digit :: "code_unit \<Rightarrow> bool" where
  "upper_or_digit c \<longleftrightarrow>
     (of_char CHR ''A'' \<le> c \<and> c \<le> of_char CHR ''Z'') \<or> (of_char CHR ''0'' \<le> c \<and> c \<le> of_char CHR ''9'')"

definition alphanumeric :: "code_unit \<Rightarrow> bool" where
  "alphanumeric c \<longleftrightarrow> upper_or_digit c \<or> (of_char CHR ''a'' \<le> c \<and> c \<le> of_char CHR ''z'')"

fun split_on :: "'a \<Rightarrow> 'a list \<Rightarrow> 'a list list" where
  "split_on c [] = [[]]"
| "split_on c (x # xs) =
     (if x = c then [] # split_on c xs
      else (case split_on c xs of [] \<Rightarrow> [[x]] | h # t \<Rightarrow> (x # h) # t))"

text \<open>
  \<open>/^https:\/\/hooks\.slack\.com\/services\/T[A-Z0-9]+\/B[A-Z0-9]+\/[A-Za-z0-9]+$/.test(url)\<close>:
  no class of the pattern holds a slash, so what follows the prefix is exactly three
  segments between slashes.
\<close>

definition SLACK_WEBHOOK_PATTERN :: "js_string \<Rightarrow> bool" where
  "SLACK_WEBHOOK_PATTERN url =
     (let prefix = lit ''https://hooks.slack.com/services/'' in
      take (length prefix) url = prefix \<and>
      (case split_on (of_char CHR ''/'') (drop (length prefix) url) of
         [t, b, x] \<Rightarrow>
           (case t of [] \<Rightarrow> False
            | c # cs \<Rightarrow> c = of_char CHR ''T'' \<and> cs \<noteq> [] \<and> list_all upper_or_digit cs) \<and>
           (case b of [] \<Rightarrow> False
            | c # cs \<Rightarrow> c = of_char CHR ''B'' \<and> cs \<noteq> [] \<and> list_all upper_or_digit cs) \<and>
           x \<noteq> [] \<and> list_all alphanumeric x
       | _ \<Rightarrow> False))"

subsection \<open>The message\<close>

record scout_response =
  response :: js_string

datatype slack_block = Header js_string | Section js_string | Divider | Context js_string

record slack_payload =
  text_fallback :: js_string
  blocks :: "slack_block list"

definition replace_char :: "code_unit \<Rightarrow> js_string \<Rightarrow> js_string \<Rightarrow> js_string" where
  "replace_char c by s = concat (map (\<lambda>x. if x = c then by else [x]) s)"

definition escapeSlackText :: "js_string \<Rightarrow> js_string" where
  "escapeSlackText t =
     replace_char (of_char CHR ''>'') (lit ''&gt;'')
       (replace_char (of_char CHR ''<'') (lit ''&lt;'')
          (replace_char (of_char CHR ''&'') (lit ''&amp;'') t))"

text \<open>\<open>.replace(/## /g, "*")\<close>\<close>

fun replace_headings :: "js_string \<Rightarrow> js_string" where
  "replace_headings (a # b # c # rest) =
     (if a = of_char CHR ''#'' \<and> b = of_char CHR ''#'' \<and> c = of_char CHR '' ''
      then of_char CHR ''*'' # replace_headings rest
      else a # replace_headings (b # c # rest))"
| "replace_headings s = s"

text \<open>
  \<open>.replace(/\*\*(.*?)\*\*/g, "*$1*")\<close>. The dot matches every code unit but the four
  line terminators; the lazy star stops at the first closing pair of stars.
  \<open>closing_stars\<close> reads what follows an opening pair: the capture and the text after
  the closing pair.
\<close>

definition line_terminator :: "code_unit \<Rightarrow> bool" where
  "line_terminator c \<longleftrightarrow> c = 0x0A \<or> c = 0x0D \<or> c = 0x2028 \<or> c = 0x2029"

fun closing_stars :: "js_string \<Rightarrow> (js_string \<times> js_string) option" where
  "closing_stars [] = None"
| "closing_stars (a # rest) =
     (if a = of_char CHR ''*'' \<and> (case rest of [] \<Rightarrow> False | b # _ \<Rightarrow> b = of_char CHR ''*'')
      then Some ([], tl rest)
      else if line_terminator a then None
      else map_option (\<lambda>(captured, after). (a # captured, after)) (closing_stars rest))"

fun match_bold :: "js_string \<Rightarrow> (js_string \<times> js_string) option" where
  "match_bold (a # b # rest) =
     (if a = of_char CHR ''*'' \<and> b = of_char CHR ''*'' then closing_stars rest else None)"
| "match_bold s = None"

lemma closing_stars_shorter:
  "closing_stars s = Some (captured, after) \<Longrightarrow> length after < length s"
proof (induction s arbitrary: captured)
  case Nil
  then show ?case by simp
next
  case (Cons a rest)
  then show ?case
    by (cases rest) (auto split: if_splits)
qed

lemma match_bold_shorter:
  "match_bold s = Some (captured, after) \<Longrightarrow> length after < length s"
proof (cases s rule: match_bold.cases)
  case (1 a b rest)
  assume "match_bold s = Some (captured, after)"
  with 1 have "closing_stars rest = Some (captured, after)"
    by (simp split: if_splits)
  from closing_stars_shorter [OF this] 1 show ?thesis by simp
qed simp_all

function replace_bold :: "js_string \<Rightarrow> js_string" where
  "replace_bold [] = []"
| "replace_bold (a # rest) =
     (case match_bold (a # rest) of
        Some (captured, after) \<Rightarrow>
          of_char CHR ''*'' # captured @ of_char CHR ''*'' # replace_bold after
      | None \<Rightarrow> a # replace_bold rest)"
  by pat_completeness auto
termination
  by (relation "measure length") (auto dest: match_bold_shorter)

text \<open>
  \<open>.replace(/\[([^\]]+)\]\(([^)]+)\)/g, "<$2|$1>")\<close>. Each class runs up to the first
  bracket it excludes, so a match has one shape only.
\<close>

definition match_link :: "js_string \<Rightarrow> (js_string \<times> js_string \<times> js_string) option" where
  "match_link s =
     (case s of
        [] \<Rightarrow> None
      | a # rest \<Rightarrow>
          if a \<noteq> of_char CHR ''['' then None
          else
            (let label = takeWhile (\<lambda>c. c \<noteq> of_char CHR '']'') rest;
                 rest1 = dropWhile (\<lambda>c. c \<noteq> of_char CHR '']'') rest
             in if label = [] then None
                else
                  (case rest1 of
                     b # c # rest2 \<Rightarrow>
                       if b = of_char CHR '']'' \<and> c = of_char CHR ''('' then
                         (let url = takeWhile (\<lambda>c. c \<noteq> of_char CHR '')'') rest2;
                              rest3 = dropWhile (\<lambda>c. c \<noteq> of_char CHR '')'') rest2
                          in if url = [] then None
                             else (case rest3 of
                                     [] \<Rightarrow> None
                                   | d # after \<Rightarrow>
                                       if d = of_char CHR '')'' then Some (label, url, after)
                                       else None))
                       else None
                   | _ \<Rightarrow> None)))"

lemma match_link_shorter:
  "match_link s = Some (label, url, after) \<Longrightarrow> length after < length s"
proof -
  have drop_le: "length (dropWhile P xs) \<le> length xs" for P and xs :: js_string
    by (induction xs) auto
  assume m: "match_link s = Some (label, url, after)"
  then obtain a rest where s: "s = a # rest" by (cases s) (auto simp: match_link_def)
  let ?rest1 = "dropWhile (\<lambda>c. c \<noteq> of_char CHR '']'') rest"
  from m s obtain b c rest2 where r1: "?rest1 = b # c # rest2"
    by (auto simp: match_link_def Let_def split: if_splits list.splits)
  let ?rest3 = "dropWhile (\<lambda>c. c \<noteq> of_char CHR '')'') rest2"
  from m s r1 obtain d where r3: "?rest3 = d # after"
    by (auto simp: match_link_def Let_def split: if_splits list.splits)
  have "length after < length ?rest3" using r3 by simp
  also have "\<dots> \<le> length rest2" by (rule drop_le)
  also have "\<dots> < length ?rest1" using r1 by simp
  also have "\<dots> \<le> length rest" by (rule drop_le)
  finally show ?thesis using s by simp
qed

function replace_links :: "js_string \<Rightarrow> js_string" where
  "replace_links [] = []"
| "replace_links (a # rest) =
     (case match_link (a # rest) of
        Some (label, url, after) \<Rightarrow>
          of_char CHR ''<'' # url @ of_char CHR ''|'' # label @ of_char CHR ''>'' # replace_links after
      | None \<Rightarrow> a # replace_links rest)"
  by pat_completeness auto
termination
  by (relation "measure length") (auto dest: match_link_shorter)

definition MAX_TEXT_LENGTH :: nat where
  "MAX_TEXT_LENGTH = 2000"

text \<open>The variable \<open>cleanResponse\<close> of \<open>formatSlackMessage\<close>, as the section block shows it.\<close>

definition cleanResponse :: "js_string \<Rightarrow> js_string" where
  "cleanResponse r =
     (let c = replace_links (replace_bold (replace_headings r))
      in if length c > MAX_TEXT_LENGTH
         then take (MAX_TEXT_LENGTH - 15) c @ lit ''\<newline>\<newline>...(truncated)''
         else c)"

text \<open>
  \<open>escapeSlackText\<close> calls \<open>text.replace\<close>: on a title or goal that is \<open>null\<close> it
  throws a TypeError.
\<close>

definition NULL_REPLACE :: js_string where
  "NULL_REPLACE = lit ''Cannot read properties of null (reading 'replace')''"

text \<open>
  \<open>formatSlackMessage\<close>; \<open>tokyo_time\<close> is the text of
  \<open>new Date().toLocaleString("ja-JP", { timeZone: "Asia/Tokyo" })\<close>. The three glyphs of
  the source file are written by their code units.
\<close>

definition formatSlackMessage :: "js_string \<Rightarrow> scout \<Rightarrow> scout_response \<Rightarrow> slack_payload attempt" where
  "formatSlackMessage tokyo_time s scoutResponse =
     (let clean = cleanResponse (response scoutResponse) in
      case title s of
        None \<Rightarrow> Thrown NULL_REPLACE
      | Some t \<Rightarrow>
          (case goal s of
             None \<Rightarrow> Thrown NULL_REPLACE
           | Some g \<Rightarrow>
               (let safeTitle = escapeSlackText t;
                    safeGoal = escapeSlackText g;
                    place = (case location s of
                               None \<Rightarrow> lit ''No location''
                             | Some l \<Rightarrow>
                                 (case city l of
                                    None \<Rightarrow> lit ''No location''
                                  | Some c \<Rightarrow> if c = [] then lit ''No location'' else c))
                in Returned
                     \<lparr>text_fallback = lit ''Scout Alert: '' @ safeTitle @ lit '' found new results!'',
                      blocks =
                        [Header ([0xF8FF, 0xFC, 0xEE, 0xE7] @ lit '' Scout Alert: '' @ safeTitle),
                         Section (lit ''Your scout *'' @ safeTitle @ lit ''* found new results!''),
                         Section (lit ''*Goal:* '' @ safeGoal),
                         Divider,
                         Section clean,
                         Divider,
                         Context ([0xF8FF, 0xFC, 0xEC, 0xE7] @ lit '' '' @ escapeSlackText place @
                                  lit '' | '' @ [0x201A, 0xE8, 0x221E] @ lit '' '' @ tokyo_time)]\<rparr>)))"

text \<open>The text of the fifth block of a message, the section that shows the result.\<close>

definition result_section :: "slack_payload attempt \<Rightarrow> js_string option" where
  "result_section made =
     (case made of
        Thrown _ \<Rightarrow> None
      | Returned p \<Rightarrow> (case drop 4 (blocks p) of Section t # _ \<Rightarrow> Some t | _ \<Rightarrow> None))"

subsection \<open>Sending\<close>

record 'd query_result =
  data :: "'d option"
  error :: "js_string option"

record http_response =
  ok :: bool
  http_status :: nat
  body_text :: "js_string attempt"

text \<open>
  The world of one notification: the answer of the select of \<open>slack_webhook_url\<close> for a
  user, where the data is the column of the single row; the answer of \<open>fetch\<close>; and the
  text of the clock.
\<close>

record slack_world =
  select_webhook :: "js_string \<Rightarrow> js_string option query_result attempt"
  fetch :: "js_string \<Rightarrow> slack_payload \<Rightarrow> http_response attempt"
  tokyo_time :: js_string

fun decimal :: "nat \<Rightarrow> js_string" where
  "decimal n = (if n < 10 then [of_nat (48 + n)] else decimal (n div 10) @ [of_nat (48 + n mod 10)])"

declare decimal.simps [simp del]

text \<open>
  The \<open>try\<close> block of \<open>sendSlackNotification\<close>: the lines written to the console and
  how the block ends.
\<close>

definition sendSlackNotification_try ::
  "slack_world \<Rightarrow> scout \<Rightarrow> scout_response \<Rightarrow> js_string list \<times> unit attempt" where
  "sendSlackNotification_try w s scoutResponse =
     (case select_webhook w (user_id s) of
        Thrown m \<Rightarrow> ([], Thrown m)
      | Returned q \<Rightarrow>
          (let webhookUrl = (case data q of Some (Some u) \<Rightarrow> u | _ \<Rightarrow> []) in
           if error q \<noteq> None \<or> webhookUrl = [] then
             ([lit ''[Slack] No webhook URL configured, skipping Slack notification''], Returned ())
           else if \<not> SLACK_WEBHOOK_PATTERN webhookUrl then
             ([lit ''[Slack] Invalid webhook URL format, skipping''], Returned ())
           else
             (let sending =
                    [lit ''[Slack] Sending notification for scout: '' @
                     (case title s of None \<Rightarrow> lit ''null'' | Some t \<Rightarrow> t)]
              in case formatSlackMessage (tokyo_time w) s scoutResponse of
                   Thrown m \<Rightarrow> (sending, Thrown m)
                 | Returned payload \<Rightarrow>
                     (case fetch w webhookUrl payload of
                        Thrown m \<Rightarrow> (sending, Thrown m)
                      | Returned res \<Rightarrow>
                          if \<not> ok res then
                            (case body_text res of
                               Thrown m \<Rightarrow> (sending, Thrown m)
                             | Returned errorText \<Rightarrow>
                                 (sending @
                                  [lit ''[Slack] Failed to send notification: '' @
                                   decimal (http_status res) @ lit '' - '' @ errorText],
                                  Returned ()))
                          else (sending @ [lit ''[Slack] Notification sent successfully!''],
                                Returned ())))))"

text \<open>The \<open>catch\<close> block logs the message and falls through to the end of the function.\<close>

definition sendSlackNotification ::
  "slack_world \<Rightarrow> scout \<Rightarrow> scout_response \<Rightarrow> js_string list \<times> unit attempt" where
  "sendSlackNotification w s scoutResponse =
     (case sendSlackNotification_try w s scoutResponse of
        (logged, Thrown m) \<Rightarrow>
          (logged @ [lit ''[Slack] Error sending notification: '' @ m], Returned ())
      | (logged, Returned u) \<Rightarrow> (logged, Returned u))"

section \<open>The test endpoint (send-test-slack/route.ts)\<close>

record preferences =
  user_id_preferences :: js_string
  slack_webhook_url :: "js_string option"
  last_test_slack_at :: "timestamp option"

datatype json_body =
    ErrorBody js_string
  | CooldownBody js_string int
  | SuccessBody js_string

record route_response =
  body :: json_body
  status_code :: nat

text \<open>
  The world of one request: \<open>getUser\<close> answers the id of the user, or nothing (an
  authentication error or no user), or throws; \<open>request_json\<close> is the \<open>webhookUrl\<close> of
  the parsed body, or the error of a body that does not parse; the select and the write of
  the preferences may fail; \<open>now_check\<close> is \<open>Date.now()\<close> of the rate limit check and
  \<open>now_sent\<close> the clock after the send; \<open>fetch_test\<close> is the answer of the webhook;
  \<open>date_parses\<close> says of a stored time whether \<open>new Date\<close> parses the text the store
  answers for it.
\<close>

record route_world =
  getUser :: "js_string option attempt"
  request_json :: "js_string option attempt"
  read_error :: bool
  write_error :: bool
  now_check :: timestamp
  now_sent :: timestamp
  fetch_test :: "js_string \<Rightarrow> http_response attempt"
  date_parses :: "timestamp \<Rightarrow> bool"

text \<open>
  What a request leaves behind: the response, the table \<open>user_preferences\<close>, and the
  URLs \<open>fetch\<close> was called with.
\<close>

record route_result =
  reply :: route_response
  user_preferences :: "preferences list"
  fetched :: "js_string list"

definition TEST_SLACK_COOLDOWN_SECONDS :: int where
  "TEST_SLACK_COOLDOWN_SECONDS = 60"

definition TEST_SLACK_COOLDOWN_MS :: int where
  "TEST_SLACK_COOLDOWN_MS = TEST_SLACK_COOLDOWN_SECONDS * 1000"

text \<open>\<open>.eq("user_id", user.id).maybeSingle()\<close>: no data on an error or on several rows.\<close>

definition select_preferences :: "route_world \<Rightarrow> js_string \<Rightarrow> preferences list \<Rightarrow> preferences option" where
  "select_preferences w uid table =
     (if read_error w then None
      else (case filter (\<lambda>p. user_id_preferences p = uid) table of
              [p] \<Rightarrow> Some p
            | _ \<Rightarrow> None))"

text \<open>
  \<open>new Date(preferences.last_test_slack_at).getTime()\<close>: the time value of a Date lies
  within 8640000000000000 ms of the epoch. A stored time beyond that range, or one whose
  text does not parse, gives \<open>NaN\<close>, here \<open>None\<close>. A stored time is taken in whole
  milliseconds, the precision at which a Date reads it.
\<close>

definition getTime :: "route_world \<Rightarrow> timestamp \<Rightarrow> int option" where
  "getTime w stored =
     (if date_parses w stored \<and> - 8640000000000000 \<le> stored \<and> stored \<le> 8640000000000000
      then Some stored else None)"

text \<open>
  The rate limit check: the seconds to wait, \<open>Math.ceil((COOLDOWN_MS - elapsed) / 1000)\<close>,
  when the last test is less than the cooldown ago. With \<open>NaN\<close> for the time of the last
  test, \<open>elapsed\<close> is \<open>NaN\<close>, the comparison is false and there is no wait. The
  ceiling is the one of the integers: the numbers at hand are whole and, for a clock
  reading of this era, below \<open>2 ^ 53\<close> in size.
\<close>

definition remainingSeconds :: "route_world \<Rightarrow> preferences option \<Rightarrow> int option" where
  "remainingSeconds w prefs =
     (case prefs of
        None \<Rightarrow> None
      | Some p \<Rightarrow>
          (case last_test_slack_at p of
             None \<Rightarrow> None
           | Some stored \<Rightarrow>
               (case getTime w stored of
                  None \<Rightarrow> None
                | Some lastSentAt \<Rightarrow>
                    (let elapsed = now_check w - lastSentAt in
                     if elapsed < TEST_SLACK_COOLDOWN_MS
                     then Some (- ((- (TEST_SLACK_COOLDOWN_MS - elapsed)) div 1000))
                     else None))))"

text \<open>The update or insert of the timestamp; the error of the write is not looked at.\<close>

definition stamp_preferences ::
  "route_world \<Rightarrow> js_string \<Rightarrow> js_string \<Rightarrow> preferences option \<Rightarrow> preferences list \<Rightarrow> preferences list" where
  "stamp_preferences w uid webhookUrl prefs table =
     (if write_error w then table
      else (case prefs of
              Some _ \<Rightarrow>
                map (\<lambda>p. if user_id_preferences p = uid
                         then p\<lparr>last_test_slack_at := Some (now_sent w)\<rparr> else p) table
            | None \<Rightarrow>
                table @ [\<lparr>user_id_preferences = uid, slack_webhook_url = Some webhookUrl,
                          last_test_slack_at = Some (now_sent w)\<rparr>]))"

definition respond :: "nat \<Rightarrow> json_body \<Rightarrow> preferences list \<Rightarrow> js_string list \<Rightarrow> route_result" where
  "respond code b table urls =
     \<lparr>reply = \<lparr>body = b, status_code = code\<rparr>, user_preferences = table, fetched = urls\<rparr>"

text \<open>Lines 74 to 139: the send to the webhook and, after it, the write of the timestamp.\<close>

definition send_test ::
  "route_world \<Rightarrow> js_string \<Rightarrow> js_string \<Rightarrow> preferences option \<Rightarrow> preferences list \<Rightarrow> route_result" where
  "send_test w uid webhookUrl prefs table =
     (case fetch_test w webhookUrl of
        Thrown m \<Rightarrow> respond 500 (ErrorBody m) table [webhookUrl]
      | Returned slackResponse \<Rightarrow>
          if \<not> ok slackResponse then
            (case body_text slackResponse of
               Thrown m \<Rightarrow> respond 500 (ErrorBody m) table [webhookUrl]
             | Returned errorText \<Rightarrow>
                 respond 400 (ErrorBody (lit ''Slack returned error: '' @ errorText)) table
                   [webhookUrl])
          else
            respond 200 (SuccessBody (lit ''Test notification sent successfully''))
              (stamp_preferences w uid webhookUrl prefs table) [webhookUrl])"

text \<open>
  The handler: authentication, the body, the preferences, the two checks of the URL, the
  rate limit, and then the send. An error thrown on the way is answered with status 500.
\<close>

definition POST :: "route_world \<Rightarrow> preferences list \<Rightarrow> route_result" where
  "POST w table =
     (case getUser w of
        Thrown m \<Rightarrow> respond 500 (ErrorBody m) table []
      | Returned None \<Rightarrow> respond 401 (ErrorBody (lit ''Not authenticated'')) table []
      | Returned (Some uid) \<Rightarrow>
          (case request_json w of
             Thrown m \<Rightarrow> respond 500 (ErrorBody m) table []
           | Returned providedWebhookUrl \<Rightarrow>
               (let prefs = select_preferences w uid table;
                    webhookUrl =
                      (if truthy providedWebhookUrl then providedWebhookUrl
                       else (case prefs of None \<Rightarrow> None | Some p \<Rightarrow> slack_webhook_url p))
                in case webhookUrl of
                     None \<Rightarrow> respond 400 (ErrorBody (lit ''No Slack webhook URL configured'')) table []
                   | Some url \<Rightarrow>
                       if url = [] then
                         respond 400 (ErrorBody (lit ''No Slack webhook URL configured'')) table []
                       else if \<not> SLACK_WEBHOOK_PATTERN url then
                         respond 400
                           (ErrorBody (lit ''Invalid webhook URL format. Must be a valid Slack webhook URL (https://hooks.slack.com/services/T.../B.../...)''))
                           table []
                       else
                         (case remainingSeconds w prefs of
                            Some remaining \<Rightarrow>
                              respond 429
                                (CooldownBody
                                   (lit ''Please wait '' @ decimal (nat remaining) @
                                    lit '' seconds before sending another test'')
                                   (max 1 remaining))
                                table []
                          | None \<Rightarrow> send_test w uid url prefs table))))"

section \<open>Example worlds\<close>

text \<open>
  A store with one stuck execution, one young running execution and one completed
  execution, and five scouts of three accounts: the first account signed in long ago, the
  second a moment ago, and the lookup of the third answers "User not found".
\<close>

definition execution_stuck :: execution where
  "execution_stuck =
     \<lparr>id_execution = lit ''e1'', scout_id = lit ''a'', status = lit ''running'',
      started_at = 2999000000, completed_at = None, error_message = None\<rparr>"

definition execution_young :: execution where
  "execution_young =
     \<lparr>id_execution = lit ''e2'', scout_id = lit ''b'', status = lit ''running'',
      started_at = 2999900000, completed_at = None, error_message = None\<rparr>"

definition execution_done :: execution where
  "execution_done =
     \<lparr>id_execution = lit ''e3'', scout_id = lit ''b'', status = lit ''completed'',
      started_at = 2000000000, completed_at = Some 2000060000, error_message = None\<rparr>"

definition scout_a :: scout where
  "scout_a =
     \<lparr>id_scout = lit ''a'', user_id = lit ''u1'', title = Some (lit ''Ramen''),
      goal = Some (lit ''Find new ramen shops''), description = Some (lit ''Weekly ramen watch''),
      location = Some \<lparr>city = Some (lit ''Tokyo'')\<rparr>, search_queries = Some [lit ''ramen''],
      frequency = Some (lit ''daily''), is_active = True\<rparr>"

definition scout_b :: scout where
  "scout_b = scout_a\<lparr>id_scout := lit ''b'', user_id := lit ''u2'', title := Some (lit ''Jobs <remote>'')\<rparr>"

definition scout_c :: scout where
  "scout_c = scout_a\<lparr>id_scout := lit ''c'', user_id := lit ''u2'', is_active := False\<rparr>"

definition scout_d :: scout where
  "scout_d = scout_a\<lparr>id_scout := lit ''d'', user_id := lit ''u3'', search_queries := Some []\<rparr>"

definition scout_e :: scout where
  "scout_e = scout_a\<lparr>id_scout := lit ''e'', user_id := lit ''u2'', title := Some (lit ''News'')\<rparr>"

definition example_store :: store where
  "example_store =
     \<lparr>scout_executions = [execution_stuck, execution_young, execution_done],
      scouts = [scout_a, scout_b, scout_c, scout_d, scout_e]\<rparr>"

definition example_world :: "bool world" where
  "example_world =
     \<lparr>SUPABASE_URL = Some (lit ''https://project.supabase.co''),
      SUPABASE_SERVICE_ROLE_KEY = Some (lit ''service-role-key''),
      now_reconcile = 3000000000,
      now_update = (\<lambda>_. 3000000001),
      now_sweep = 3000000002,
      store_error = (\<lambda>_. None),
      getUserById =
        (\<lambda>u. if u = lit ''u1'' then AuthUser (Some \<lparr>last_sign_in_at = Some 100\<rparr>)
             else if u = lit ''u2'' then AuthUser (Some \<lparr>last_sign_in_at = Some 2999999999\<rparr>)
             else AuthError (lit ''User not found'')),
      shouldRunScout = (\<lambda>_. True),
      executeScoutAgent = (\<lambda>_. \<lparr>settled_at = 1, outcome = Inr True\<rparr>)\<rparr>"

text \<open>
  The value an invocation of the agent is fulfilled with says whether the run succeeded.
  In \<open>failing_world\<close> the invocation for scout \<open>d\<close> is rejected; in
  \<open>recording_world\<close> it is fulfilled after a run that failed.
\<close>

definition failing_world :: "bool world" where
  "failing_world =
     example_world
       \<lparr>executeScoutAgent :=
          (\<lambda>s. if id_scout s = lit ''d''
               then \<lparr>settled_at = 2, outcome = Inl (lit ''agent crashed'')\<rparr>
               else \<lparr>settled_at = 1, outcome = Inr True\<rparr>)\<rparr>"

definition recording_world :: "bool world" where
  "recording_world =
     example_world
       \<lparr>executeScoutAgent :=
          (\<lambda>s. \<lparr>settled_at = 1, outcome = Inr (id_scout s \<noteq> lit ''d'')\<rparr>)\<rparr>"

definition cron_request :: request where
  "cron_request = \<lparr>method_request = lit ''POST'', scoutId = None\<rparr>"

definition manual_request :: "string \<Rightarrow> request" where
  "manual_request i = \<lparr>method_request = lit ''POST'', scoutId = Some (lit i)\<rparr>"


text \<open>
  A webhook URL of the right shape, a response of 2001 letters, a world where the webhook
  cannot be reached, and four requests to the test endpoint of a user whose last test
  was sent at 2999990000: ten seconds later, ten seconds later with a URL that is no
  webhook URL, sixty seconds later, and ten seconds later with a body that does not parse.
\<close>

definition slack_url :: js_string where
  "slack_url = lit ''https://hooks.slack.com/services/T0A/B1B/xYz9''"

definition long_response :: scout_response where
  "long_response = \<lparr>response = replicate 2001 (of_char CHR ''a'')\<rparr>"

definition offline_slack_world :: slack_world where
  "offline_slack_world =
     \<lparr>select_webhook = (\<lambda>_. Returned \<lparr>data = Some (Some slack_url), error = None\<rparr>),
      fetch = (\<lambda>_ _. Thrown (lit ''network down'')),
      tokyo_time = lit ''2026/1/1 9:00:00''\<rparr>"

definition example_preferences :: "preferences list" where
  "example_preferences =
     [\<lparr>user_id_preferences = lit ''u2'', slack_webhook_url = Some slack_url,
       last_test_slack_at = Some 2999990000\<rparr>]"

definition cooldown_world :: route_world where
  "cooldown_world =
     \<lparr>getUser = Returned (Some (lit ''u2'')),
      request_json = Returned None,
      read_error = False,
      write_error = False,
      now_check = 3000000000,
      now_sent = 3000000500,
      fetch_test = (\<lambda>_. Returned \<lparr>ok = True, http_status = 200, body_text = Returned (lit ''ok'')\<rparr>),
      date_parses = (\<lambda>_. True)\<rparr>"

definition bad_url_world :: route_world where
  "bad_url_world = cooldown_world\<lparr>request_json := Returned (Some (lit ''bad''))\<rparr>"

definition late_world :: route_world where
  "late_world = cooldown_world\<lparr>now_check := 3000050000, now_sent := 3000050500\<rparr>"


text \<open>A row whose stored time is beyond the range of a Date.\<close>

definition far_preferences :: "preferences list" where
  "far_preferences =
     [\<lparr>user_id_preferences = lit ''u2'', slack_webhook_url = Some slack_url,
       last_test_slack_at = Some 9000000000000000\<rparr>]"

section \<open>Properties of the stuck-execution cleanup\<close>

lemma mark_failed_id: "id_execution (mark_failed w e) = id_execution e"
  by (simp add: mark_failed_def)

lemma mark_failed_idem: "mark_failed w (mark_failed w e) = mark_failed w e"
  by (simp add: mark_failed_def)

lemma fail_each_scouts: "scouts (fail_each w xs db) = scouts db"
  by (induction xs arbitrary: db) (auto simp: update_execution_def split: option.splits)

lemma reconcileStuck_scouts: "scouts (reconcileStuck w db) = scouts db"
  by (simp add: reconcileStuck_def fail_each_scouts split: option.splits)

lemma fail_each_map:
  assumes "\<forall>x \<in> set xs. store_error w (UpdateExecution (id_execution x)) = None"
  shows "scout_executions (fail_each w xs db) =
         map (\<lambda>e. if id_execution e \<in> id_execution ` set xs then mark_failed w e else e)
           (scout_executions db)"
  using assms
proof (induction xs arbitrary: db)
  case Nil
  then show ?case by simp
next
  case (Cons x xs)
  then show ?case
    by (auto simp: update_execution_def mark_failed_id mark_failed_idem)
qed

lemma distinct_id_mem:
  assumes "distinct (map id_execution es)" "e \<in> set es" "x \<in> set es"
      and "id_execution e = id_execution x"
  shows "e = x"
  using assms by (meson distinct_map inj_onD)

text \<open>
  C2. When the select and the updates of the cleanup are answered and the ids of the
  executions are distinct (\<open>id\<close> is the key of \<open>scout_executions\<close>), one pass rewrites
  exactly the executions that are \<open>running\<close> and started more than three minutes
  (180000 ms) before the clock reading of the pass: each gets the status \<open>failed\<close>, a
  completion timestamp and the fixed timeout message. Every other execution, the running
  ones within the timeout among them, is as it was.
\<close>

theorem reconcile_stuck_executions:
  assumes "store_error w SelectStuckExecutions = None"
      and "\<forall>e \<in> set (scout_executions db). store_error w (UpdateExecution (id_execution e)) = None"
      and "distinct (map id_execution (scout_executions db))"
  shows "scout_executions (reconcileStuck w db) =
         map (\<lambda>e. if status e = lit ''running'' \<and> started_at e < now_reconcile w - 180000
                  then e\<lparr>status := lit ''failed'',
                         completed_at := Some (now_update w (id_execution e)),
                         error_message :=
                           Some (lit ''Execution timed out after 3 minutes (Supabase Edge Function limit)'')\<rparr>
                  else e)
           (scout_executions db)"
proof -
  let ?stuck = "\<lambda>e. status e = lit ''running'' \<and> started_at e < now_reconcile w - 180000"
  let ?xs = "filter ?stuck (scout_executions db)"
  have sel: "stuckExecutions w db = Some ?xs"
    using assms(1) by (simp add: stuckExecutions_def threeMinutesAgo_def)
  have upd: "\<forall>x \<in> set ?xs. store_error w (UpdateExecution (id_execution x)) = None"
    using assms(2) by simp
  have mem: "id_execution e \<in> id_execution ` set ?xs \<longleftrightarrow> ?stuck e"
    if "e \<in> set (scout_executions db)" for e
  proof
    assume "id_execution e \<in> id_execution ` set ?xs"
    then obtain x where x: "x \<in> set (scout_executions db)" "?stuck x"
      "id_execution e = id_execution x"
      by auto
    with distinct_id_mem [OF assms(3) that x(1)] show "?stuck e" by simp
  next
    assume "?stuck e"
    with that show "id_execution e \<in> id_execution ` set ?xs" by auto
  qed
  have "scout_executions (reconcileStuck w db) = scout_executions (fail_each w ?xs db)"
    using sel by (cases ?xs) (simp_all add: reconcileStuck_def)
  also have "\<dots> = map (\<lambda>e. if id_execution e \<in> id_execution ` set ?xs then mark_failed w e else e)
                     (scout_executions db)"
    by (rule fail_each_map [OF upd])
  also have "\<dots> = map (\<lambda>e. if ?stuck e then mark_failed w e else e) (scout_executions db)"
    using mem by (intro map_cong refl) simp
  finally show ?thesis by (simp add: mark_failed_def TIMEOUT_MESSAGE_def)
qed

text \<open>
  The theorem at the example store: the stuck execution is failed, the young one and the
  completed one are untouched.
\<close>

theorem reconcile_stuck_executions_witness:
  "scout_executions (reconcileStuck example_world example_store) =
     [execution_stuck\<lparr>status := lit ''failed'', completed_at := Some 3000000001,
                       error_message :=
                         Some (lit ''Execution timed out after 3 minutes (Supabase Edge Function limit)'')\<rparr>,
      execution_young, execution_done]"
  using reconcile_stuck_executions [of example_world example_store]
  by (simp add: execution_stuck_def execution_young_def execution_done_def example_store_def
      example_world_def lit_def)

text \<open>
  C6. The cleanup writes execution records only: the table of scouts, with the active
  flag and every other field of every scout, is the same after the pass as before it,
  whatever the world answers.
\<close>

theorem reconcile_leaves_scouts: "scouts (reconcileStuck w db) = scouts db"
  by (simp add: reconcileStuck_def fail_each_scouts split: option.splits)

theorem reconcile_leaves_scouts_witness:
  "scouts (reconcileStuck example_world example_store) =
     [scout_a, scout_b, scout_c, scout_d, scout_e]"
  using reconcile_leaves_scouts [of example_world example_store]
  by (simp add: example_store_def)

section \<open>Properties of the dormancy sweep\<close>

lemma fold_unique_set:
  "set (fold (\<lambda>x seen. if x \<in> set seen then seen else seen @ [x]) ids acc) = set acc \<union> set ids"
  by (induction ids arbitrary: acc) auto

lemma set_uniqueUserIds: "set (uniqueUserIds ids) = set ids"
  by (simp add: uniqueUserIds_def fold_unique_set)

lemma check_users_filter: "check_users w ids acc = acc @ filter (user_inactive w) ids"
  by (induction ids arbitrary: acc) auto

lemma sweep_shape:
  "\<exists>ids. set ids \<subseteq> {u. user_inactive w u} \<and>
     scouts (sweepDormant w db) =
       map (\<lambda>s. if user_id s \<in> set ids \<and> is_active s then s\<lparr>is_active := False\<rparr> else s) (scouts db)"
proof (cases "sweepDormant w db = db")
  case True
  then have "set [] \<subseteq> {u. user_inactive w u} \<and>
     scouts (sweepDormant w db) =
       map (\<lambda>s. if user_id s \<in> set [] \<and> is_active s then s\<lparr>is_active := False\<rparr> else s) (scouts db)"
    by simp
  then show ?thesis by blast
next
  case False
  then obtain users where u: "activeScoutUsers w db = Inr users"
    and sw: "sweepDormant w db = disable_scouts w (check_users w (uniqueUserIds users) []) db"
    by (auto simp: sweepDormant_def Let_def split: sum.splits if_splits)
  from False sw have "store_error w DisableScouts = None"
    by (auto simp: disable_scouts_def split: option.splits)
  then have "scouts (sweepDormant w db) =
       map (\<lambda>s. if user_id s \<in> set (check_users w (uniqueUserIds users) []) \<and> is_active s
                then s\<lparr>is_active := False\<rparr> else s) (scouts db)"
    by (simp add: sw disable_scouts_def)
  moreover have "set (check_users w (uniqueUserIds users) []) \<subseteq> {u. user_inactive w u}"
    by (auto simp: check_users_filter)
  ultimately show ?thesis by blast
qed

lemma sweep_map:
  assumes "store_error w SelectActiveScoutUsers = None" "store_error w DisableScouts = None"
  shows "scouts (sweepDormant w db) =
         map (\<lambda>s. if is_active s \<and> user_inactive w (user_id s) then s\<lparr>is_active := False\<rparr> else s)
           (scouts db)"
proof -
  let ?users = "map user_id (filter is_active (scouts db))"
  let ?ids = "check_users w (uniqueUserIds ?users) []"
  have ids: "set ?ids = {u \<in> set ?users. user_inactive w u}"
    by (auto simp: check_users_filter set_uniqueUserIds)
  have dis: "scouts (disable_scouts w ?ids db) =
         map (\<lambda>s. if is_active s \<and> user_inactive w (user_id s) then s\<lparr>is_active := False\<rparr> else s)
           (scouts db)"
    using assms(2) ids by (auto simp: disable_scouts_def)
  show ?thesis
  proof (cases "?ids = []")
    case True
    then have "set ?ids = {}" by simp
    with ids have none: "\<forall>s \<in> set (scouts db). \<not> (is_active s \<and> user_inactive w (user_id s))"
      by auto
    have "scouts (sweepDormant w db) = scouts db"
      using True assms(1) by (simp add: sweepDormant_def activeScoutUsers_def Let_def)
    also have "\<dots> = map (\<lambda>s. s) (scouts db)" by simp
    also have "\<dots> = map (\<lambda>s. if is_active s \<and> user_inactive w (user_id s) then s\<lparr>is_active := False\<rparr> else s)
           (scouts db)"
      using none by (intro map_cong refl) auto
    finally show ?thesis .
  next
    case False
    then have "?users \<noteq> []" by (auto simp: uniqueUserIds_def)
    with False have "sweepDormant w db = disable_scouts w ?ids db"
      using assms(1) by (simp add: sweepDormant_def activeScoutUsers_def Let_def)
    with dis show ?thesis by simp
  qed
qed

lemma user_inactive_iff:
  "user_inactive w u \<longleftrightarrow>
     (\<exists>t. getUserById w u = AuthUser (Some \<lparr>last_sign_in_at = Some t\<rparr>) \<and> t < now_sweep w - 2592000000)"
  by (cases "getUserById w u")
     (auto simp: user_inactive_def thirtyDaysAgo_def split: option.splits, (metis user.cases user.select_convs(1))+)

text \<open>
  C4. When the select of the owners and the bulk update are answered, one sweep
  deactivates exactly the scouts that are active and whose owner's lookup answers a last
  sign-in more than thirty days (2592000000 ms) before the clock reading of the sweep.
  Every other scout is as it was: the scouts of owners who signed in within the
  threshold, and the scouts that were already inactive.
\<close>

theorem sweep_deactivates_dormant:
  assumes "store_error w SelectActiveScoutUsers = None" "store_error w DisableScouts = None"
  shows "scouts (sweepDormant w db) =
         map (\<lambda>s. if is_active s \<and>
                    (\<exists>t. getUserById w (user_id s) = AuthUser (Some \<lparr>last_sign_in_at = Some t\<rparr>) \<and>
                         t < now_sweep w - 2592000000)
                  then s\<lparr>is_active := False\<rparr> else s)
           (scouts db)"
  using sweep_map [OF assms] by (simp add: user_inactive_iff)

theorem sweep_deactivates_dormant_witness:
  "scouts (sweepDormant example_world example_store) =
     [scout_a\<lparr>is_active := False\<rparr>, scout_b, scout_c, scout_d, scout_e]"
  using sweep_deactivates_dormant [of example_world example_store]
  by (simp add: scout_a_def scout_b_def scout_c_def scout_d_def scout_e_def example_store_def
      example_world_def lit_def)

text \<open>
  C5, amended. An account whose lookup answers an error, "User not found" included, is
  passed over: the loop logs the error and continues, the account is not marked dormant,
  and every one of its scouts is after the sweep as it was before.
\<close>

theorem sweep_skips_failed_lookup:
  assumes "getUserById w u = AuthError m"
  shows "filter (\<lambda>s. user_id s = u) (scouts (sweepDormant w db)) = filter (\<lambda>s. user_id s = u) (scouts db)"
proof -
  from assms have no: "\<not> user_inactive w u" by (simp add: user_inactive_def)
  obtain ids where ids: "set ids \<subseteq> {u. user_inactive w u}"
    and sc: "scouts (sweepDormant w db) =
       map (\<lambda>s. if user_id s \<in> set ids \<and> is_active s then s\<lparr>is_active := False\<rparr> else s) (scouts db)"
    using sweep_shape by blast
  from ids no have "u \<notin> set ids" by auto
  then have "filter (\<lambda>s. user_id s = u)
           (map (\<lambda>s. if user_id s \<in> set ids \<and> is_active s then s\<lparr>is_active := False\<rparr> else s) xs) =
         filter (\<lambda>s. user_id s = u) xs" for xs :: "scout list"
    by (induction xs) auto
  then show ?thesis by (simp add: sc)
qed

theorem sweep_skips_failed_lookup_witness:
  "filter (\<lambda>s. user_id s = lit ''u3'') (scouts (sweepDormant example_world example_store)) = [scout_d]"
  using sweep_skips_failed_lookup [of example_world "lit ''u3''" "lit ''User not found''" example_store]
  by (simp add: scout_a_def scout_b_def scout_c_def scout_d_def scout_e_def example_store_def
      example_world_def lit_def)

text \<open>
  The claim as stated fails at the example: the lookup of the owner of scout \<open>d\<close>
  answers "User not found", and after the sweep the scout is still active.
\<close>

theorem not_found_is_not_dormant:
  "getUserById example_world (user_id scout_d) = AuthError (lit ''User not found'') \<and>
   is_active scout_d \<and>
   scouts example_store = [scout_a, scout_b, scout_c, scout_d, scout_e] \<and>
   scouts (sweepDormant example_world example_store) =
     [scout_a\<lparr>is_active := False\<rparr>, scout_b, scout_c, scout_d, scout_e]"
  by (simp add: sweepDormant_def activeScoutUsers_def uniqueUserIds_def user_inactive_def
      thirtyDaysAgo_def disable_scouts_def scout_a_def scout_b_def scout_c_def scout_d_def
      scout_e_def example_store_def example_world_def lit_def)

section \<open>Properties of selection and dispatch\<close>

lemma first_rejection_None:
  "first_rejection ps = None \<longleftrightarrow> (\<forall>p \<in> set ps. \<not> isl (outcome p))"
  by (induction ps) (auto split: sum.splits option.splits)

lemma first_rejection_single:
  assumes "\<forall>p \<in> set (pre @ post). \<not> isl (outcome p)" "outcome k = Inl m"
  shows "first_rejection (pre @ k # post) = Some (settled_at k, m)"
proof -
  from assms(1) have post: "first_rejection post = None"
    by (simp add: first_rejection_None)
  from assms(1) have "\<forall>p \<in> set pre. \<not> isl (outcome p)" by simp
  then show ?thesis
    using post assms(2) by (induction pre) (auto split: sum.splits)
qed

lemma example_loaded_scouts:
  "scouts (sweepDormant example_world (reconcileStuck example_world example_store)) =
     [scout_a\<lparr>is_active := False\<rparr>, scout_b, scout_c, scout_d, scout_e]"
  by (simp add: sweepDormant_def activeScoutUsers_def uniqueUserIds_def user_inactive_def
      thirtyDaysAgo_def disable_scouts_def reconcileStuck_scouts
      scout_a_def scout_b_def scout_c_def scout_d_def
      scout_e_def example_store_def example_world_def lit_def)

lemma failing_loaded_scouts:
  "scouts (sweepDormant failing_world (reconcileStuck failing_world example_store)) =
     [scout_a\<lparr>is_active := False\<rparr>, scout_b, scout_c, scout_d, scout_e]"
  by (simp add: sweepDormant_def activeScoutUsers_def uniqueUserIds_def user_inactive_def
      thirtyDaysAgo_def disable_scouts_def reconcileStuck_scouts failing_world_def
      scout_a_def scout_b_def scout_c_def scout_d_def
      scout_e_def example_store_def example_world_def lit_def)

lemma example_world_simps:
  "store_error example_world q = None"
  "truthy (SUPABASE_URL example_world)"
  "truthy (SUPABASE_SERVICE_ROLE_KEY example_world)"
  "shouldRunScout example_world s"
  "executeScoutAgent example_world s = \<lparr>settled_at = 1, outcome = Inr True\<rparr>"
  by (simp_all add: example_world_def truthy_def lit_def)

lemma failing_world_simps:
  "store_error failing_world q = None"
  "truthy (SUPABASE_URL failing_world)"
  "truthy (SUPABASE_SERVICE_ROLE_KEY failing_world)"
  "shouldRunScout failing_world s"
  "executeScoutAgent failing_world s =
     (if id_scout s = lit ''d'' then \<lparr>settled_at = 2, outcome = Inl (lit ''agent crashed'')\<rparr>
      else \<lparr>settled_at = 1, outcome = Inr True\<rparr>)"
  by (simp_all add: failing_world_def example_world_def truthy_def lit_def)

lemma example_scout_simps:
  "is_active scout_b" "\<not> is_active scout_c" "is_active scout_d" "is_active scout_e"
  "id_scout scout_a = lit ''a''" "id_scout scout_b = lit ''b''" "id_scout scout_c = lit ''c''"
  "id_scout scout_d = lit ''d''" "id_scout scout_e = lit ''e''"
  by (simp_all add: scout_a_def scout_b_def scout_c_def scout_d_def scout_e_def)

lemma example_cron_run:
  "scoutsToRun example_world cron_request
     (sweepDormant example_world (reconcileStuck example_world example_store)) =
   Inr [scout_b, scout_d, scout_e]"
  by (simp add: scoutsToRun_def cron_scouts_def example_loaded_scouts cron_request_def
      example_world_simps example_scout_simps)

lemma failing_cron_run:
  "scoutsToRun failing_world cron_request
     (sweepDormant failing_world (reconcileStuck failing_world example_store)) =
   Inr [scout_b, scout_d, scout_e]"
  by (simp add: scoutsToRun_def cron_scouts_def failing_loaded_scouts cron_request_def
      failing_world_simps example_scout_simps)

lemma recording_world_simps:
  "store_error recording_world q = None"
  "truthy (SUPABASE_URL recording_world)"
  "truthy (SUPABASE_SERVICE_ROLE_KEY recording_world)"
  "shouldRunScout recording_world s"
  "executeScoutAgent recording_world s = \<lparr>settled_at = 1, outcome = Inr (id_scout s \<noteq> lit ''d'')\<rparr>"
  by (simp_all add: recording_world_def example_world_def truthy_def lit_def)

lemma recording_loaded_scouts:
  "scouts (sweepDormant recording_world (reconcileStuck recording_world example_store)) =
     [scout_a\<lparr>is_active := False\<rparr>, scout_b, scout_c, scout_d, scout_e]"
  by (simp add: sweepDormant_def activeScoutUsers_def uniqueUserIds_def user_inactive_def
      thirtyDaysAgo_def disable_scouts_def reconcileStuck_scouts recording_world_def
      scout_a_def scout_b_def scout_c_def scout_d_def
      scout_e_def example_store_def example_world_def lit_def)

lemma recording_cron_run:
  "scoutsToRun recording_world cron_request
     (sweepDormant recording_world (reconcileStuck recording_world example_store)) =
   Inr [scout_b, scout_d, scout_e]"
  by (simp add: scoutsToRun_def cron_scouts_def recording_loaded_scouts cron_request_def
      recording_world_simps example_scout_simps)

lemma example_report:
  "fst (serve example_world cron_request example_store) =
     Report 3 [(lit ''b'', Some (lit ''Jobs <remote>'')), (lit ''d'', Some (lit ''Ramen'')),
               (lit ''e'', Some (lit ''News''))]"
  using example_cron_run
  by (simp add: serve_def Let_def promise_all_def cron_request_def example_world_simps)
     (simp add: lit_def scout_a_def scout_b_def scout_d_def scout_e_def)

lemma recording_report:
  "fst (serve recording_world cron_request example_store) =
     Report 3 [(lit ''b'', Some (lit ''Jobs <remote>'')), (lit ''d'', Some (lit ''Ramen'')),
               (lit ''e'', Some (lit ''News''))]"
  using recording_cron_run
  by (simp add: serve_def Let_def promise_all_def cron_request_def recording_world_simps)
     (simp add: lit_def scout_a_def scout_b_def scout_d_def scout_e_def)

lemma failing_response:
  "fst (serve failing_world cron_request example_store) = Error500 (lit ''agent crashed'')"
  using failing_cron_run
  by (simp add: serve_def Let_def promise_all_def cron_request_def failing_world_simps
      example_scout_simps)
     (simp add: lit_def)

text \<open>
  C3. A manual trigger, on the store as the handler loads the scout from it (after the
  cleanup and the sweep of the same invocation), when the load is answered: no scout of
  that id ends the invocation with status 500 and the "not found" message; a scout whose
  active flag is false, with the "not active" message; an active scout that lacks a
  title, goal, description, location, a non-empty list of search queries or a frequency,
  with the "not complete" message; otherwise the scouts to run are that one scout,
  whatever \<open>shouldRunScout\<close> would say of it.
\<close>

theorem manual_trigger:
  assumes "method_request req \<noteq> lit ''OPTIONS''"
      and "truthy (SUPABASE_URL w)" "truthy (SUPABASE_SERVICE_ROLE_KEY w)"
      and "scoutId req = Some i" "i \<noteq> []"
      and "store_error w (SelectScoutById i) = None"
      and "db' = sweepDormant w (reconcileStuck w db)"
  shows "(filter (\<lambda>s. id_scout s = i) (scouts db') = [] \<longrightarrow>
            fst (serve w req db) = Error500 (lit ''Scout '' @ i @ lit '' not found in database'')) \<and>
         (filter (\<lambda>s. id_scout s = i) (scouts db') = [s] \<and> \<not> is_active s \<longrightarrow>
            fst (serve w req db) =
              Error500 (lit ''Scout '' @ i @ lit '' is not active. Please activate it in the settings.'')) \<and>
         (filter (\<lambda>s. id_scout s = i) (scouts db') = [s] \<and> is_active s \<and>
            (\<not> truthy (title s) \<or> \<not> truthy (goal s) \<or> \<not> truthy (description s) \<or> location s = None \<or>
             search_queries s = None \<or> search_queries s = Some [] \<or> \<not> truthy (frequency s)) \<longrightarrow>
            fst (serve w req db) = Error500 (lit ''Scout '' @ i @ lit '' configuration is not complete'')) \<and>
         (filter (\<lambda>s. id_scout s = i) (scouts db') = [s] \<and> is_active s \<and>
            truthy (title s) \<and> truthy (goal s) \<and> truthy (description s) \<and> location s \<noteq> None \<and>
            (\<exists>q qs. search_queries s = Some (q # qs)) \<and> truthy (frequency s) \<longrightarrow>
            (\<forall>due. scoutsToRun (w\<lparr>shouldRunScout := due\<rparr>) req db' = Inr [s]))"
proof -
  have serve_eq: "fst (serve w req db) = Error500 e" if "manual_scout w i db' = Inl e" for e
    using assms that by (simp add: serve_def Let_def scoutsToRun_def)
  have run_eq: "scoutsToRun (w\<lparr>shouldRunScout := due\<rparr>) req db' = manual_scout w i db'" for due
    using assms(4,5) by (simp add: scoutsToRun_def manual_scout_def scoutCheck_def)
  show ?thesis
  proof (intro conjI impI)
    assume "filter (\<lambda>s. id_scout s = i) (scouts db') = []"
    then show "fst (serve w req db) = Error500 (lit ''Scout '' @ i @ lit '' not found in database'')"
      using assms(6) by (intro serve_eq) (simp add: manual_scout_def scoutCheck_def)
  next
    assume "filter (\<lambda>s. id_scout s = i) (scouts db') = [s] \<and> \<not> is_active s"
    then show "fst (serve w req db) =
              Error500 (lit ''Scout '' @ i @ lit '' is not active. Please activate it in the settings.'')"
      using assms(6) by (intro serve_eq) (simp add: manual_scout_def scoutCheck_def)
  next
    assume "filter (\<lambda>s. id_scout s = i) (scouts db') = [s] \<and> is_active s \<and>
            (\<not> truthy (title s) \<or> \<not> truthy (goal s) \<or> \<not> truthy (description s) \<or> location s = None \<or>
             search_queries s = None \<or> search_queries s = Some [] \<or> \<not> truthy (frequency s))"
    then show "fst (serve w req db) = Error500 (lit ''Scout '' @ i @ lit '' configuration is not complete'')"
      using assms(6) by (intro serve_eq) (auto simp: manual_scout_def scoutCheck_def isComplete_def)
  next
    assume "filter (\<lambda>s. id_scout s = i) (scouts db') = [s] \<and> is_active s \<and>
            truthy (title s) \<and> truthy (goal s) \<and> truthy (description s) \<and> location s \<noteq> None \<and>
            (\<exists>q qs. search_queries s = Some (q # qs)) \<and> truthy (frequency s)"
    then have "manual_scout w i db' = Inr [s]"
      using assms(6) by (auto simp: manual_scout_def scoutCheck_def isComplete_def)
    then show "\<forall>due. scoutsToRun (w\<lparr>shouldRunScout := due\<rparr>) req db' = Inr [s]"
      by (simp add: run_eq)
  qed
qed

theorem manual_trigger_witness:
  "fst (serve example_world (manual_request ''zz'') example_store) =
     Error500 (lit ''Scout zz not found in database'') \<and>
   fst (serve example_world (manual_request ''c'') example_store) =
     Error500 (lit ''Scout c is not active. Please activate it in the settings.'') \<and>
   fst (serve example_world (manual_request ''d'') example_store) =
     Error500 (lit ''Scout d configuration is not complete'') \<and>
   scoutsToRun (example_world\<lparr>shouldRunScout := (\<lambda>_. False)\<rparr>) (manual_request ''b'')
     (sweepDormant example_world (reconcileStuck example_world example_store)) = Inr [scout_b]"
proof -
  let ?db = "sweepDormant example_world (reconcileStuck example_world example_store)"
  have "fst (serve example_world (manual_request ''zz'') example_store) =
     Error500 (lit ''Scout '' @ lit ''zz'' @ lit '' not found in database'')"
    using manual_trigger [of "manual_request ''zz''" example_world "lit ''zz''" ?db example_store]
    by (simp add: example_loaded_scouts)
       (simp add: manual_request_def example_world_def lit_def truthy_def
        scout_a_def scout_b_def scout_c_def scout_d_def scout_e_def)
  moreover have "fst (serve example_world (manual_request ''c'') example_store) =
     Error500 (lit ''Scout '' @ lit ''c'' @ lit '' is not active. Please activate it in the settings.'')"
    using manual_trigger [of "manual_request ''c''" example_world "lit ''c''" ?db example_store scout_c]
    by (simp add: example_loaded_scouts)
       (simp add: manual_request_def example_world_def lit_def truthy_def
        scout_a_def scout_b_def scout_c_def scout_d_def scout_e_def)
  moreover have "fst (serve example_world (manual_request ''d'') example_store) =
     Error500 (lit ''Scout '' @ lit ''d'' @ lit '' configuration is not complete'')"
    using manual_trigger [of "manual_request ''d''" example_world "lit ''d''" ?db example_store scout_d]
    by (simp add: example_loaded_scouts)
       (simp add: manual_request_def example_world_def lit_def truthy_def
        scout_a_def scout_b_def scout_c_def scout_d_def scout_e_def)
  moreover have "scoutsToRun (example_world\<lparr>shouldRunScout := (\<lambda>_. False)\<rparr>) (manual_request ''b'')
     ?db = Inr [scout_b]"
    using manual_trigger [of "manual_request ''b''" example_world "lit ''b''" ?db example_store scout_b]
    by (simp add: example_loaded_scouts)
       (simp add: manual_request_def example_world_def lit_def truthy_def
        scout_a_def scout_b_def scout_c_def scout_d_def scout_e_def)
  ultimately show ?thesis by (simp add: lit_def)
qed

text \<open>
  C1, amended. When every invocation of the agent is fulfilled, the response is the
  report: the count and the id and title of each of the scouts run, in their order. The
  report holds no outcome of a scout, so it is the same whatever the invocations were
  fulfilled with. When the invocation for one scout is rejected and the others are
  fulfilled, the response is status 500 with the message of that rejection, and no report.
\<close>

theorem dispatch_report:
  assumes "method_request req \<noteq> lit ''OPTIONS''"
      and "truthy (SUPABASE_URL w)" "truthy (SUPABASE_SERVICE_ROLE_KEY w)"
      and "scoutsToRun w req (sweepDormant w (reconcileStuck w db)) = Inr run"
  shows "((\<forall>s \<in> set run. \<not> isl (outcome (executeScoutAgent w s))) \<longrightarrow>
            fst (serve w req db) = Report (length run) (map (\<lambda>s. (id_scout s, title s)) run)) \<and>
         (run = pre @ k # post \<and> outcome (executeScoutAgent w k) = Inl m \<and>
            (\<forall>s \<in> set (pre @ post). \<not> isl (outcome (executeScoutAgent w s))) \<longrightarrow>
            fst (serve w req db) = Error500 m)"
proof (intro conjI impI)
  assume "\<forall>s \<in> set run. \<not> isl (outcome (executeScoutAgent w s))"
  then have "first_rejection (map (executeScoutAgent w) run) = None"
    by (simp add: first_rejection_None)
  then show "fst (serve w req db) = Report (length run) (map (\<lambda>s. (id_scout s, title s)) run)"
    using assms by (simp add: serve_def Let_def promise_all_def)
next
  assume a: "run = pre @ k # post \<and> outcome (executeScoutAgent w k) = Inl m \<and>
            (\<forall>s \<in> set (pre @ post). \<not> isl (outcome (executeScoutAgent w s)))"
  then have "first_rejection (map (executeScoutAgent w) pre @ executeScoutAgent w k # map (executeScoutAgent w) post)
             = Some (settled_at (executeScoutAgent w k), m)"
    by (intro first_rejection_single) auto
  with a have "first_rejection (map (executeScoutAgent w) run) = Some (settled_at (executeScoutAgent w k), m)"
    by simp
  then show "fst (serve w req db) = Error500 m"
    using assms by (simp add: serve_def Let_def promise_all_def)
qed

theorem dispatch_report_witness:
  "fst (serve example_world cron_request example_store) =
     Report 3 [(lit ''b'', Some (lit ''Jobs <remote>'')), (lit ''d'', Some (lit ''Ramen'')),
               (lit ''e'', Some (lit ''News''))] \<and>
   fst (serve failing_world cron_request example_store) = Error500 (lit ''agent crashed'')"
proof -
  have ok: "fst (serve example_world cron_request example_store) =
     Report (length [scout_b, scout_d, scout_e])
       (map (\<lambda>s. (id_scout s, title s)) [scout_b, scout_d, scout_e])"
    using dispatch_report [of cron_request example_world example_store "[scout_b, scout_d, scout_e]"]
      example_cron_run
    by (simp add: cron_request_def example_world_def lit_def truthy_def)
  have bad: "fst (serve failing_world cron_request example_store) = Error500 (lit ''agent crashed'')"
    using dispatch_report [of cron_request failing_world example_store "[scout_b, scout_d, scout_e]"
        "[scout_b]" scout_d "[scout_e]" "lit ''agent crashed''"]
      failing_cron_run
    by (simp add: cron_request_def example_world_def failing_world_def lit_def truthy_def
        scout_a_def scout_b_def scout_d_def scout_e_def)
  from ok bad show ?thesis
    by (simp add: scout_a_def scout_b_def scout_d_def scout_e_def)
qed

text \<open>
  The claim as stated fails at the example, where three scouts are run. When the
  invocation for \<open>d\<close> is rejected the response is status 500, not a report of three
  outcomes; when it is fulfilled after a failed run the report is the one of a cycle
  where every run succeeded, with nothing marked failed.
\<close>

theorem failed_task_not_reported:
  "scoutsToRun failing_world cron_request
     (sweepDormant failing_world (reconcileStuck failing_world example_store)) =
     Inr [scout_b, scout_d, scout_e] \<and>
   outcome (executeScoutAgent failing_world scout_b) = Inr True \<and>
   outcome (executeScoutAgent failing_world scout_d) = Inl (lit ''agent crashed'') \<and>
   outcome (executeScoutAgent failing_world scout_e) = Inr True \<and>
   fst (serve failing_world cron_request example_store) = Error500 (lit ''agent crashed'') \<and>
   outcome (executeScoutAgent recording_world scout_b) = Inr True \<and>
   outcome (executeScoutAgent recording_world scout_d) = Inr False \<and>
   outcome (executeScoutAgent recording_world scout_e) = Inr True \<and>
   fst (serve recording_world cron_request example_store) =
     Report 3 [(lit ''b'', Some (lit ''Jobs <remote>'')), (lit ''d'', Some (lit ''Ramen'')),
               (lit ''e'', Some (lit ''News''))] \<and>
   fst (serve example_world cron_request example_store) =
     Report 3 [(lit ''b'', Some (lit ''Jobs <remote>'')), (lit ''d'', Some (lit ''Ramen'')),
               (lit ''e'', Some (lit ''News''))]"
proof -
  have "outcome (executeScoutAgent failing_world scout_b) = Inr True"
    "outcome (executeScoutAgent failing_world scout_d) = Inl (lit ''agent crashed'')"
    "outcome (executeScoutAgent failing_world scout_e) = Inr True"
    by (simp_all add: failing_world_simps example_scout_simps) (simp_all add: lit_def)
  moreover have "outcome (executeScoutAgent recording_world scout_b) = Inr True"
    "outcome (executeScoutAgent recording_world scout_d) = Inr False"
    "outcome (executeScoutAgent recording_world scout_e) = Inr True"
    by (simp_all add: recording_world_simps example_scout_simps) (simp_all add: lit_def)
  ultimately show ?thesis
    using failing_cron_run failing_response recording_report example_report by simp
qed

section \<open>Properties of the due-date policy\<close>

text \<open>
  C7. A task with no prior execution is due, whatever its frequency and schedule, the
  interval of a frequency, the refinement of the schedule and the current time.
\<close>

theorem isDue_no_history: "isDue interval_of schedule_matches now task None"
  by (simp add: isDue_def)

theorem isDue_no_history_witness:
  "isDue (\<lambda>_. 86400000) (\<lambda>_ _. False) 3000000000 scout_a None"
  by (rule isDue_no_history)

section \<open>Properties of the Slack notification\<close>

text \<open>
  C8. \<open>sendSlackNotification\<close> returns normally in every world and for every scout and
  response: whatever the select answers or throws, whatever the webhook URL is, whether
  building the message throws, and whatever \<open>fetch\<close> and the reading of its body answer
  or throw.
\<close>

theorem sendSlackNotification_returns: "snd (sendSlackNotification w s scoutResponse) = Returned ()"
  by (simp add: sendSlackNotification_def split: prod.splits attempt.splits)

lemma slack_url_ok: "SLACK_WEBHOOK_PATTERN slack_url"
  by (simp add: slack_url_def SLACK_WEBHOOK_PATTERN_def lit_def upper_or_digit_def alphanumeric_def)

lemma slack_url_nonempty: "slack_url \<noteq> []"
  by (simp add: slack_url_def lit_def)

text \<open>At the example: \<open>fetch\<close> throws, the error is logged, and the function returns.\<close>

theorem sendSlackNotification_returns_witness:
  "sendSlackNotification offline_slack_world scout_b \<lparr>response = lit ''## News''\<rparr> =
     ([lit ''[Slack] Sending notification for scout: Jobs <remote>'',
       lit ''[Slack] Error sending notification: network down''], Returned ())"
proof -
  have "snd (sendSlackNotification offline_slack_world scout_b \<lparr>response = lit ''## News''\<rparr>) = Returned ()"
    by (rule sendSlackNotification_returns)
  moreover have "fst (sendSlackNotification offline_slack_world scout_b \<lparr>response = lit ''## News''\<rparr>) =
     [lit ''[Slack] Sending notification for scout: Jobs <remote>'',
       lit ''[Slack] Error sending notification: network down'']"
    by (simp add: sendSlackNotification_def sendSlackNotification_try_def offline_slack_world_def
        slack_url_ok slack_url_nonempty formatSlackMessage_def scout_a_def scout_b_def Let_def)
       (simp add: lit_def)
  ultimately show ?thesis by (simp add: prod_eq_iff)
qed

lemma replace_headings_plain:
  "of_char CHR ''#'' \<notin> set s \<Longrightarrow> replace_headings s = s"
  by (induction s rule: replace_headings.induct) auto

lemma match_bold_plain: "a \<noteq> of_char CHR ''*'' \<Longrightarrow> match_bold (a # rest) = None"
  by (cases rest) auto

lemma replace_bold_plain:
  "of_char CHR ''*'' \<notin> set s \<Longrightarrow> replace_bold s = s"
  by (induction s) (auto simp: match_bold_plain)

lemma replace_links_plain:
  "of_char CHR ''['' \<notin> set s \<Longrightarrow> replace_links s = s"
  by (induction s) (auto simp: match_link_def)

lemma cleanResponse_length:
  "length (cleanResponse r) =
     (if length (replace_links (replace_bold (replace_headings r))) > 2000 then 2001
      else length (replace_links (replace_bold (replace_headings r))))"
  by (simp add: cleanResponse_def Let_def MAX_TEXT_LENGTH_def lit_def)

lemma cleanResponse_long:
  assumes "c \<noteq> of_char CHR ''#''" "c \<noteq> of_char CHR ''*''" "c \<noteq> of_char CHR ''[''"
  shows "cleanResponse (replicate 2001 c) = replicate 1985 c @ lit ''\<newline>\<newline>...(truncated)''"
proof -
  have "replace_links (replace_bold (replace_headings (replicate 2001 c))) = replicate 2001 c"
    using assms by (simp add: replace_headings_plain replace_bold_plain replace_links_plain)
  then show ?thesis
    by (simp add: cleanResponse_def Let_def MAX_TEXT_LENGTH_def)
qed

text \<open>
  C9 says that the text of the result section is at most 2000 code units long. At a
  response of 2001 letters the text is truncated and the marker is appended, as the claim
  says, but it is 2001 code units long: 1985 code units of the response and the marker,
  which is 16 code units long, not 15. By \<open>cleanResponse_length\<close> the same holds of
  every response whose cleaned text is longer than 2000.
\<close>

theorem truncated_result_exceeds_limit:
  "map_option length (result_section (formatSlackMessage tokyo scout_b long_response)) = Some 2001"
proof -
  have "length (cleanResponse (response long_response)) = 2001"
    by (simp add: long_response_def cleanResponse_long lit_def)
  moreover have "result_section (formatSlackMessage tokyo scout_b long_response) =
      Some (cleanResponse (response long_response))"
    by (simp add: result_section_def formatSlackMessage_def scout_a_def scout_b_def Let_def)
  ultimately show ?thesis by simp
qed

section \<open>Properties of the test endpoint\<close>




lemma POST_parsed:
  assumes "getUser w = Returned (Some uid)" "request_json w = Returned provided"
  shows "POST w table =
     (case (if truthy provided then provided
            else (case select_preferences w uid table of None \<Rightarrow> None | Some p \<Rightarrow> slack_webhook_url p)) of
        None \<Rightarrow> respond 400 (ErrorBody (lit ''No Slack webhook URL configured'')) table []
      | Some url \<Rightarrow>
          if url = [] then
            respond 400 (ErrorBody (lit ''No Slack webhook URL configured'')) table []
          else if \<not> SLACK_WEBHOOK_PATTERN url then
            respond 400
              (ErrorBody (lit ''Invalid webhook URL format. Must be a valid Slack webhook URL (https://hooks.slack.com/services/T.../B.../...)''))
              table []
          else
            (case remainingSeconds w (select_preferences w uid table) of
               Some remaining \<Rightarrow>
                 respond 429
                   (CooldownBody
                      (lit ''Please wait '' @ decimal (nat remaining) @
                       lit '' seconds before sending another test'')
                      (max 1 remaining))
                   table []
             | None \<Rightarrow> send_test w uid url (select_preferences w uid table) table))"
  unfolding POST_def Let_def
  by (simp only: assms attempt.case option.case)









lemma cooldown_world_simps:
  "getUser cooldown_world = Returned (Some (lit ''u2''))"
  "request_json cooldown_world = Returned None"
  "\<not> read_error cooldown_world" "\<not> write_error cooldown_world"
  "now_check cooldown_world = 3000000000" "now_sent cooldown_world = 3000000500"
  "fetch_test cooldown_world u = Returned \<lparr>ok = True, http_status = 200, body_text = Returned (lit ''ok'')\<rparr>"
  "date_parses cooldown_world t"
  by (simp_all add: cooldown_world_def)

lemma late_world_simps:
  "getUser late_world = Returned (Some (lit ''u2''))"
  "request_json late_world = Returned None"
  "\<not> read_error late_world" "\<not> write_error late_world"
  "now_check late_world = 3000050000" "now_sent late_world = 3000050500"
  "fetch_test late_world u = Returned \<lparr>ok = True, http_status = 200, body_text = Returned (lit ''ok'')\<rparr>"
  "date_parses late_world t"
  by (simp_all add: late_world_def cooldown_world_def)

lemma bad_url_world_simps:
  "getUser bad_url_world = Returned (Some (lit ''u2''))"
  "request_json bad_url_world = Returned (Some (lit ''bad''))"
  "\<not> read_error bad_url_world"
  "now_check bad_url_world = 3000000000"
  "date_parses bad_url_world t"
  by (simp_all add: bad_url_world_def cooldown_world_def)


lemma example_preferences_simps:
  "filter (\<lambda>p. user_id_preferences p = lit ''u2'') example_preferences = example_preferences"
  "select_preferences cooldown_world (lit ''u2'') example_preferences = Some (hd example_preferences)"
  "select_preferences late_world (lit ''u2'') example_preferences = Some (hd example_preferences)"
  "select_preferences bad_url_world (lit ''u2'') example_preferences = Some (hd example_preferences)"
  "slack_webhook_url (hd example_preferences) = Some slack_url"
  "last_test_slack_at (hd example_preferences) = Some 2999990000"
  by (simp_all add: select_preferences_def cooldown_world_simps late_world_simps bad_url_world_simps
      example_preferences_def)

lemma far_preferences_simps:
  "select_preferences cooldown_world (lit ''u2'') far_preferences = Some (hd far_preferences)"
  "slack_webhook_url (hd far_preferences) = Some slack_url"
  "last_test_slack_at (hd far_preferences) = Some 9000000000000000"
  by (simp_all add: select_preferences_def cooldown_world_simps far_preferences_def)



lemma example_remaining:
  "remainingSeconds cooldown_world (Some (hd example_preferences)) = Some 50"
  "remainingSeconds late_world (Some (hd example_preferences)) = None"
  "remainingSeconds cooldown_world (Some (hd far_preferences)) = None"
  by (simp_all add: remainingSeconds_def getTime_def example_preferences_simps far_preferences_simps
      cooldown_world_simps late_world_simps TEST_SLACK_COOLDOWN_MS_def TEST_SLACK_COOLDOWN_SECONDS_def)


text \<open>
  A stored time beyond the range of a Date: its time value is \<open>NaN\<close>, the rate limit
  check passes it over, and the test is sent.
\<close>

lemma unreadable_time_is_sent:
  "POST cooldown_world far_preferences =
     respond 200 (SuccessBody (lit ''Test notification sent successfully''))
       [\<lparr>user_id_preferences = lit ''u2'', slack_webhook_url = Some slack_url,
         last_test_slack_at = Some 3000000500\<rparr>]
       [slack_url]"
  unfolding POST_parsed [OF cooldown_world_simps(1) cooldown_world_simps(2)]
  by (simp add: far_preferences_simps example_remaining truthy_def slack_url_ok
      slack_url_nonempty send_test_def cooldown_world_simps stamp_preferences_def)
     (simp add: far_preferences_def cooldown_world_simps)



end
